theory Spec2Isabelle
  imports Complex_Main
begin

section \<open>Errors\<close>

text \<open>
  Every exception the handler can raise is a value. The three
  \<^verbatim>\<open>pb_utils.TritonModelException\<close>s of \<^verbatim>\<open>model.py\<close> are told apart by what they
  report: \<open>ModelNotFound\<close> carries the model directory and the candidate file names of
  the message \<^verbatim>\<open>"No model found in " + dir + "/" + str(filenames)\<close>,
  \<open>NoModelClassFound\<close> is \<^verbatim>\<open>"Cannot find a subclass of torch.nn.Module"\<close> and
  \<open>InvalidCompileParameter\<close> is
  \<^verbatim>\<open>"'model' is not an optional parameter for 'torch.compile'"\<close>. The others are the
  Python and runtime exceptions of the same names; \<open>HostError\<close> is any failure of an
  operation of the host or of the tensor runtime that the handler only calls.
\<close>

datatype error =
    ModelNotFound string "string list"
  | NoModelClassFound
  | InvalidCompileParameter
  | IndexError
  | TypeError
  | AttributeError
  | RuntimeError
  | HostError string

fun is_TritonModelException :: "error \<Rightarrow> bool" where
  "is_TritonModelException (ModelNotFound d fs) = True"
| "is_TritonModelException NoModelClassFound = True"
| "is_TritonModelException InvalidCompileParameter = True"
| "is_TritonModelException e = False"

section \<open>Tensors of the runtime\<close>

text \<open>
  A tensor is its shape, its elements in row-major order and the device it lives on.
  \<open>torch_cat a b\<close> is \<^verbatim>\<open>torch.cat((a, b), 0)\<close> and \<open>torch_split t sections\<close> is
  \<^verbatim>\<open>torch.split(t, sections)\<close> with a list of sizes, as the runtime documents them:
  concatenation along axis 0 needs tensors with an axis 0, on one device, that agree in
  every other dimension (a one-dimensional empty tensor is skipped); splitting needs
  sizes that add up to the axis-0 length.
\<close>

datatype torch_device = TorchDevice string

datatype 'a tensor = Tensor (shape: "nat list") (elems: "'a list") (tdevice: torch_device)

definition tensor_to :: "'a tensor \<Rightarrow> torch_device \<Rightarrow> error + 'a tensor" where
  "tensor_to t d = Inr (Tensor (shape t) (elems t) d)"

definition torch_cat :: "'a tensor \<Rightarrow> 'a tensor \<Rightarrow> error + 'a tensor" where
  "torch_cat a b =
     (if shape a = [] \<or> shape b = [] then Inl RuntimeError
      else if tdevice a \<noteq> tdevice b then Inl RuntimeError
      else if shape a = [0] then Inr b
      else if shape b = [0] then Inr a
      else if tl (shape a) \<noteq> tl (shape b) then Inl RuntimeError
      else Inr (Tensor ((hd (shape a) + hd (shape b)) # tl (shape a))
                  (elems a @ elems b) (tdevice a)))"

fun split_pieces :: "nat list \<Rightarrow> torch_device \<Rightarrow> 'a list \<Rightarrow> nat list \<Rightarrow> 'a tensor list" where
  "split_pieces rest d xs [] = []"
| "split_pieces rest d xs (s # ss) =
     Tensor (s # rest) (take (s * prod_list rest) xs) d
       # split_pieces rest d (drop (s * prod_list rest) xs) ss"

definition torch_split :: "'a tensor \<Rightarrow> nat list \<Rightarrow> error + 'a tensor list" where
  "torch_split t sections =
     (case shape t of
        [] \<Rightarrow> Inl RuntimeError
      | n # rest \<Rightarrow>
          if sum_list sections \<noteq> n then Inl RuntimeError
          else Inr (split_pieces rest (tdevice t) (elems t) sections))"

text \<open>\<^verbatim>\<open>t.size()[0]\<close>: a tensor without dimensions has an empty size.\<close>

definition size0 :: "'a tensor \<Rightarrow> error + nat" where
  "size0 t = (case shape t of [] \<Rightarrow> Inl IndexError | n # rest \<Rightarrow> Inr n)"

text \<open>A tensor is well formed when it has as many elements as its shape says.\<close>

definition wf_tensor :: "'a tensor \<Rightarrow> bool" where
  "wf_tensor t = (length (elems t) = prod_list (shape t))"

section \<open>Batching and unbatching\<close>

text \<open>
  \<^verbatim>\<open>_batch_torch_tensors\<close>. The inner loop runs over the slots \<open>j\<close> of one request:
  where \<open>batch_tensors\<close> already has a slot \<open>j\<close>, the source calls
  \<^verbatim>\<open>torch.cat((tensor, request_tensor), 0)\<close> and drops what it returns, so only a
  failure of the call is visible; otherwise the request's tensor starts the slot.
\<close>

fun batch_slots :: "'a tensor list \<Rightarrow> nat \<Rightarrow> 'a tensor list \<Rightarrow> error + 'a tensor list" where
  "batch_slots batch_tensors j [] = Inr batch_tensors"
| "batch_slots batch_tensors j (request_tensor # rest) =
     (if j < length batch_tensors then
        (case torch_cat (batch_tensors ! j) request_tensor of
           Inl e \<Rightarrow> Inl e
         | Inr cat_result \<Rightarrow> batch_slots batch_tensors (Suc j) rest)
      else batch_slots (batch_tensors @ [request_tensor]) (Suc j) rest)"

text \<open>
  The outer loop runs over the requests; after the slots of a request it records
  \<^verbatim>\<open>request_tensors[0].size()[0]\<close>, which raises IndexError for a request without
  tensors and for a slot-0 tensor without dimensions.
\<close>

fun batch_requests ::
  "'a tensor list \<Rightarrow> nat list \<Rightarrow> 'a tensor list list \<Rightarrow> error + 'a tensor list list \<times> nat list" where
  "batch_requests batch_tensors sections [] = Inr ([batch_tensors], sections)"
| "batch_requests batch_tensors sections (request_tensors # rest) =
     (case batch_slots batch_tensors 0 request_tensors of
        Inl e \<Rightarrow> Inl e
      | Inr batch_tensors' \<Rightarrow>
          (case request_tensors of
             [] \<Rightarrow> Inl IndexError
           | t0 # ts \<Rightarrow>
               (case size0 t0 of
                  Inl e \<Rightarrow> Inl e
                | Inr section_length \<Rightarrow>
                    batch_requests batch_tensors' (sections @ [section_length]) rest)))"

definition batch_torch_tensors ::
  "'a tensor list list \<Rightarrow> error + 'a tensor list list \<times> nat list" where
  "batch_torch_tensors requests_tensors = batch_requests [] [] requests_tensors"

text \<open>
  \<^verbatim>\<open>_unbatch_torch_tensors\<close>. The inner loop hands piece \<open>i\<close> of one output slot to
  response \<open>i\<close>, adding an empty response first when \<open>i\<close> is past the end.
\<close>

fun unbatch_pieces ::
  "'a tensor list list \<Rightarrow> nat \<Rightarrow> 'a tensor list \<Rightarrow> error + 'a tensor list list" where
  "unbatch_pieces responses_tensors i [] = Inr responses_tensors"
| "unbatch_pieces responses_tensors i (response_tensor # rest) =
     (let rs = (if i \<ge> length responses_tensors then responses_tensors @ [[]]
                else responses_tensors)
      in if i < length rs
         then unbatch_pieces (rs[i := rs ! i @ [response_tensor]]) (Suc i) rest
         else Inl IndexError)"

fun unbatch_slots ::
  "'a tensor list list \<Rightarrow> nat list \<Rightarrow> 'a tensor list \<Rightarrow> error + 'a tensor list list" where
  "unbatch_slots responses_tensors sections [] = Inr responses_tensors"
| "unbatch_slots responses_tensors sections (t # ts) =
     (case torch_split t sections of
        Inl e \<Rightarrow> Inl e
      | Inr responses_tensor \<Rightarrow>
          (case unbatch_pieces responses_tensors 0 responses_tensor of
             Inl e \<Rightarrow> Inl e
           | Inr responses_tensors' \<Rightarrow> unbatch_slots responses_tensors' sections ts))"

definition unbatch_torch_tensors ::
  "'a tensor list \<Rightarrow> nat list \<Rightarrow> error + 'a tensor list list" where
  "unbatch_torch_tensors response_tensors sections = unbatch_slots [] sections response_tensors"


section \<open>Model locator\<close>

text \<open>
  What the handler reads of the host's model configuration: \<open>parameters\<close> maps a key
  to its \<^verbatim>\<open>"string_value"\<close>; \<open>input_config\<close> and \<open>output_config\<close> are its
  \<^verbatim>\<open>"input"\<close> and \<^verbatim>\<open>"output"\<close>. The host gives the model directory
  (\<^verbatim>\<open>pb_utils.get_model_dir()\<close>) and the file system (\<^verbatim>\<open>os.path.exists\<close>).
\<close>

record io_config =
  io_name :: string
  io_data_type :: string
  io_dims :: "int list"

record model_config =
  max_batch_size :: int
  input_config :: "io_config list"
  output_config :: "io_config list"
  default_model_filename :: string
  parameters :: "string \<rightharpoonup> string"

record host =
  get_model_dir :: string
  os_path_exists :: "string \<Rightarrow> bool"

text \<open>\<^verbatim>\<open>os.path.join(a, b)\<close> of the POSIX path module.\<close>

definition os_path_join :: "string \<Rightarrow> string \<Rightarrow> string" where
  "os_path_join a b =
     (if b \<noteq> [] \<and> hd b = CHR ''/'' then b
      else if a = [] \<or> last a = CHR ''/'' then a @ b
      else a @ ''/'' @ b)"

text \<open>
  \<^verbatim>\<open>_get_model_path\<close>: \<open>model_filenames\<close> is the list \<^verbatim>\<open>filenames\<close> after the
  conditional \<^verbatim>\<open>insert(0, ...)\<close>, \<open>first_model_path\<close> is the \<^verbatim>\<open>for\<close> loop.
\<close>

definition model_filenames :: "model_config \<Rightarrow> string list" where
  "model_filenames config =
     (if default_model_filename config \<noteq> []
      then default_model_filename config # [''model.py'', ''model.pt'', ''model.pth'']
      else [''model.py'', ''model.pt'', ''model.pth''])"

fun first_model_path :: "host \<Rightarrow> string list \<Rightarrow> string option" where
  "first_model_path h [] = None"
| "first_model_path h (filename # filenames) =
     (let model_path = os_path_join (get_model_dir h) filename
      in if os_path_exists h model_path then Some model_path
         else first_model_path h filenames)"

definition get_model_path :: "host \<Rightarrow> model_config \<Rightarrow> error + string" where
  "get_model_path h config =
     (case first_model_path h (model_filenames config) of
        Some model_path \<Rightarrow> Inr model_path
      | None \<Rightarrow> Inl (ModelNotFound (get_model_dir h) (model_filenames config)))"

text \<open>\<^verbatim>\<open>_get_model_data_path\<close>: the empty string says that there is no data file.\<close>

fun first_data_path :: "host \<Rightarrow> string \<Rightarrow> string list \<Rightarrow> string" where
  "first_data_path h model_path [] = []"
| "first_data_path h model_path (extension # extensions) =
     (let data_path = model_path @ extension
      in if os_path_exists h data_path then data_path
         else first_data_path h model_path extensions)"

definition get_model_data_path :: "host \<Rightarrow> string \<Rightarrow> string" where
  "get_model_data_path h model_path = first_data_path h model_path [''.pt'', ''.pth'']"

text \<open>\<^verbatim>\<open>model_path[-3:] == ".py"\<close>: the slice is the whole string when it is shorter.\<close>

definition is_py_class_model :: "string \<Rightarrow> bool" where
  "is_py_class_model model_path = (drop (length model_path - 3) model_path = ''.py'')"

definition parse_io_config :: "io_config list \<Rightarrow> string list" where
  "parse_io_config confs = map io_name confs"

section \<open>Device resolution\<close>

definition get_device_name :: "string \<Rightarrow> string \<Rightarrow> string" where
  "get_device_name model_instance_kind model_instance_device_id =
     (if model_instance_kind = ''GPU'' then ''cuda:'' @ model_instance_device_id
      else if model_instance_kind = ''CPU'' then ''cpu''
      else [])"

definition get_device :: "string \<Rightarrow> string \<Rightarrow> torch_device option" where
  "get_device model_instance_kind model_instance_device_id =
     (let device_name = get_device_name model_instance_kind model_instance_device_id
      in if device_name \<noteq> [] then Some (TorchDevice device_name) else None)"

text \<open>
  \<^verbatim>\<open>_torch_object_to_device\<close> serves tensors and models alike; \<open>to\<close> is the object's
  \<^verbatim>\<open>.to(device)\<close>.
\<close>

definition torch_object_to_device ::
  "('o \<Rightarrow> torch_device \<Rightarrow> error + 'o) \<Rightarrow> 'o \<Rightarrow> torch_device option \<Rightarrow> error + 'o" where
  "torch_object_to_device to obj dev = (case dev of Some d \<Rightarrow> to obj d | None \<Rightarrow> Inr obj)"

section \<open>Compiler parameters\<close>

text \<open>
  The values \<^verbatim>\<open>json.loads\<close> returns, an object as the list of its items.
  \<open>py_in k v\<close> is Python's \<^verbatim>\<open>k in v\<close> for a string \<open>k\<close>: a key of a dict, an element
  of a list, a substring of a string, and a TypeError on anything else.
\<close>

datatype json =
    JNull
  | JBool bool
  | JInt int
  | JFloat real
  | JString string
  | JArray "json list"
  | JObject "(string \<times> json) list"

fun starts_with :: "string \<Rightarrow> string \<Rightarrow> bool" where
  "starts_with xs [] = True"
| "starts_with [] (y # ys) = False"
| "starts_with (x # xs) (y # ys) = (x = y \<and> starts_with xs ys)"

fun str_contains :: "string \<Rightarrow> string \<Rightarrow> bool" where
  "str_contains [] ys = (ys = [])"
| "str_contains (x # xs) ys = (starts_with (x # xs) ys \<or> str_contains xs ys)"

fun py_in :: "string \<Rightarrow> json \<Rightarrow> error + bool" where
  "py_in k (JObject items) = Inr (k \<in> set (map fst items))"
| "py_in k (JArray xs) = Inr (JString k \<in> set xs)"
| "py_in k (JString s) = Inr (str_contains s k)"
| "py_in k v = Inl TypeError"

text \<open>\<^verbatim>\<open>_get_torch_compile_params\<close>, over the \<^verbatim>\<open>json.loads\<close> it is given.\<close>

definition get_torch_compile_params ::
  "(string \<Rightarrow> error + json) \<Rightarrow> model_config \<Rightarrow> error + json" where
  "get_torch_compile_params json_loads config =
     (case parameters config ''TORCH_COMPILE_OPTIONAL_PARAMETERS'' of
        None \<Rightarrow> Inr (JObject [])
      | Some val \<Rightarrow>
          (case json_loads val of
             Inl e \<Rightarrow> Inl e
           | Inr params \<Rightarrow>
               (case py_in ''model'' params of
                  Inl e \<Rightarrow> Inl e
                | Inr found \<Rightarrow> if found then Inl InvalidCompileParameter else Inr params)))"

section \<open>Class discovery\<close>

text \<open>
  A loaded Python module is the list of its attributes in the order of \<^verbatim>\<open>dir(module)\<close>.
  An attribute is a class or something else; \<^verbatim>\<open>issubclass(attr, torch.nn.Module)\<close>
  raises TypeError on what is not a class, and \<open>derives c\<close> says whether the class \<open>c\<close>
  is \<^verbatim>\<open>torch.nn.Module\<close> or derives from it.
\<close>

datatype 'c py_attr = PyClass 'c | PyOther

type_synonym 'c py_module = "(string \<times> 'c py_attr) list"

definition dir :: "'c py_module \<Rightarrow> string list" where
  "dir py_mod = map fst py_mod"

definition getattr :: "'c py_module \<Rightarrow> string \<Rightarrow> error + 'c py_attr" where
  "getattr py_mod nm = (case map_of py_mod nm of None \<Rightarrow> Inl AttributeError | Some a \<Rightarrow> Inr a)"

definition issubclass :: "('c \<Rightarrow> bool) \<Rightarrow> 'c py_attr \<Rightarrow> error + bool" where
  "issubclass derives attr = (case attr of PyClass c \<Rightarrow> Inr (derives c) | PyOther \<Rightarrow> Inl TypeError)"

text \<open>
  \<^verbatim>\<open>_get_model_class_from_module\<close>: \<open>scan_names\<close> is the loop over \<^verbatim>\<open>names\<close>. Only
  the TypeError of the subclass check is caught.
\<close>

fun scan_names :: "('c \<Rightarrow> bool) \<Rightarrow> 'c py_module \<Rightarrow> string list \<Rightarrow> error + 'c py_attr" where
  "scan_names derives py_mod [] = Inl NoModelClassFound"
| "scan_names derives py_mod (nm # names) =
     (case getattr py_mod nm of
        Inl e \<Rightarrow> Inl e
      | Inr attr \<Rightarrow>
          (case issubclass derives attr of
             Inr found \<Rightarrow> if found then Inr attr else scan_names derives py_mod names
           | Inl e \<Rightarrow> if e = TypeError then scan_names derives py_mod names else Inl e))"

definition get_model_class_from_module :: "('c \<Rightarrow> bool) \<Rightarrow> 'c py_module \<Rightarrow> error + 'c py_attr" where
  "get_model_class_from_module derives py_mod = scan_names derives py_mod (dir py_mod)"

section \<open>The handler object\<close>

text \<open>
  What the handler only calls is a parameter: \<open>'m\<close> is a model object of the runtime,
  \<open>'c\<close> a Python class, \<open>'s\<close> a deserialised parameter file, \<open>'a\<close> an element of a tensor.
  \<^item> \<open>parse_model_config\<close> is \<^verbatim>\<open>json.loads(args["model_config"])\<close> read as the fields
    above, \<open>json_loads\<close> is \<^verbatim>\<open>json.loads\<close>;
  \<^item> \<open>torch_set setting val\<close> is \<^verbatim>\<open>getattr(torch, "set_" + setting.lower())(int(val))\<close>;
  \<^item> \<open>torch_compile_rejects params\<close> is the exception of \<^verbatim>\<open>torch.compile(f, **params)\<close>
    for options it does not take;
  \<^item> \<open>exec_module\<close> is \<^verbatim>\<open>importlib\<close> loading the file as a module, \<open>instantiate\<close> the
    call of a class without arguments, \<open>module_to\<close> and \<open>module_eval\<close> are \<^verbatim>\<open>.to(device)\<close>
    and \<^verbatim>\<open>.eval()\<close> of a model, \<open>call_model\<close> is calling it on positional tensors.
  A model returns one tensor, or a tuple or list of tensors, and what it returns is a
  function of the tensors it is called on: a model in evaluation mode keeps no state
  from one call to the next.
\<close>

datatype 'a model_output = OneTensor "'a tensor" | TensorSeq "'a tensor list"

record ('a, 'm, 'c, 's) runtime =
  parse_model_config :: "string \<Rightarrow> error + model_config"
  json_loads :: "string \<Rightarrow> error + json"
  torch_set :: "string \<Rightarrow> string \<Rightarrow> error option"
  torch_compile_rejects :: "json \<Rightarrow> error option"
  torch_jit_load :: "string \<Rightarrow> error + 'm"
  module_to :: "'m \<Rightarrow> torch_device \<Rightarrow> error + 'm"
  module_eval :: "'m \<Rightarrow> 'm"
  exec_module :: "string \<Rightarrow> string \<Rightarrow> error + 'c py_module"
  derives_nn_Module :: "'c \<Rightarrow> bool"
  instantiate :: "'c py_attr \<Rightarrow> error + 'm"
  torch_load :: "string \<Rightarrow> torch_device option \<Rightarrow> error + 's"
  load_state_dict :: "'m \<Rightarrow> 's \<Rightarrow> error + 'm"
  call_model :: "'m \<Rightarrow> 'a tensor list \<Rightarrow> error + 'a model_output"

record args =
  model_config :: string
  model_instance_kind :: string
  model_instance_device_id :: string
  model_name :: string

text \<open>
  The attributes of a \<^verbatim>\<open>TritonPythonModel\<close>; \<open>self_x\<close> is \<^verbatim>\<open>self._x\<close>, and \<open>None\<close>
  is an attribute that has not been assigned (\<open>self_device\<close> assigned \<open>None\<close> is
  \<open>Some None\<close>). Reading an unassigned attribute raises AttributeError.
\<close>

record ('a, 'm, 'c) self =
  self_model_name :: "string option"
  self_model_config :: "model_config option"
  self_support_batching :: "bool option"
  self_inputs :: "string list option"
  self_outputs :: "string list option"
  self_infer_mode :: bool
  self_device :: "torch_device option option"
  self_batcher :: "('a tensor list list \<Rightarrow> error + 'a tensor list list \<times> nat list) option"
  self_unbatcher :: "('a tensor list \<Rightarrow> nat list \<Rightarrow> error + 'a tensor list list) option"
  self_model :: "'m option"
  self_model_module :: "'c py_module option"
  self_model_class :: "'c py_attr option"
  self_raw_model :: "'m option"

definition new_self :: "('a, 'm, 'c) self" where
  "new_self =
     \<lparr>self_model_name = None, self_model_config = None, self_support_batching = None,
      self_inputs = None, self_outputs = None, self_infer_mode = False, self_device = None,
      self_batcher = None, self_unbatcher = None, self_model = None,
      self_model_module = None, self_model_class = None, self_raw_model = None\<rparr>"

definition attr :: "'x option \<Rightarrow> error + 'x" where
  "attr a = (case a of None \<Rightarrow> Inl AttributeError | Some x \<Rightarrow> Inr x)"

text \<open>A loop that builds a list and stops at the first exception.\<close>

fun map_result :: "('x \<Rightarrow> error + 'y) \<Rightarrow> 'x list \<Rightarrow> error + 'y list" where
  "map_result f [] = Inr []"
| "map_result f (x # xs) =
     (case f x of
        Inl e \<Rightarrow> Inl e
      | Inr y \<Rightarrow> (case map_result f xs of Inl e \<Rightarrow> Inl e | Inr ys \<Rightarrow> Inr (y # ys)))"

section \<open>initialize\<close>

text \<open>
  \<^verbatim>\<open>_set_torch_parallelism\<close>, without the log message it builds: for each setting that
  the configuration gives, the setter of the runtime is called.
\<close>

fun apply_parallelism ::
  "('a, 'm, 'c, 's) runtime \<Rightarrow> model_config \<Rightarrow> string list \<Rightarrow> error option" where
  "apply_parallelism rt config [] = None"
| "apply_parallelism rt config (setting # settings) =
     (case parameters config setting of
        Some val \<Rightarrow>
          (case torch_set rt setting val of
             Some e \<Rightarrow> Some e
           | None \<Rightarrow> apply_parallelism rt config settings)
      | None \<Rightarrow> apply_parallelism rt config settings)"

definition set_torch_parallelism :: "('a, 'm, 'c, 's) runtime \<Rightarrow> model_config \<Rightarrow> error option" where
  "set_torch_parallelism rt config =
     apply_parallelism rt config [''NUM_THREADS'', ''NUM_INTEROP_THREADS'']"

text \<open>
  \<^verbatim>\<open>torch.compile(f, **params)\<close> gives a callable that computes what \<open>f\<close> computes.
\<close>

definition torch_compile :: "(json \<Rightarrow> error option) \<Rightarrow> 'f \<Rightarrow> json \<Rightarrow> error + 'f" where
  "torch_compile rejects f params = (case rejects params of Some e \<Rightarrow> Inl e | None \<Rightarrow> Inr f)"

definition import_module_from_path ::
  "('a, 'm, 'c, 's) runtime \<Rightarrow> string \<Rightarrow> string \<Rightarrow> error + 'c py_module" where
  "import_module_from_path rt module_name file_path = exec_module rt module_name file_path"

text \<open>
  \<^verbatim>\<open>initialize\<close> is state passing over the object: it returns the object as the
  assignments made so far have left it, and the exception if one was raised. Logging is
  left out. \<open>initialize_config\<close> is lines 204 to 232 of \<^verbatim>\<open>model.py\<close>, \<open>load_model\<close> is
  lines 234 to 254, with the TorchScript branch first.
\<close>

definition initialize_config ::
  "('a, 'm, 'c, 's) runtime \<Rightarrow> args \<Rightarrow> ('a, 'm, 'c) self
     \<Rightarrow> ('a, 'm, 'c) self \<times> (error + model_config \<times> json)" where
  "initialize_config rt a self0 =
     (let self1 = self0\<lparr>self_model_name := Some (model_name a)\<rparr> in
      (case parse_model_config rt (model_config a) of
         Inl e \<Rightarrow> (self1, Inl e)
       | Inr config \<Rightarrow>
      (let self2 = self1\<lparr>self_model_config := Some config,
                        self_support_batching := Some (max_batch_size config > 0),
                        self_inputs := Some (parse_io_config (input_config config)),
                        self_outputs := Some (parse_io_config (output_config config))\<rparr> in
      (case set_torch_parallelism rt config of
         Some e \<Rightarrow> (self2, Inl e)
       | None \<Rightarrow>
      (let self3 = self2\<lparr>self_infer_mode := True,
                        self_device := Some (get_device (model_instance_kind a)
                                               (model_instance_device_id a))\<rparr> in
      (case get_torch_compile_params (json_loads rt) config of
         Inl e \<Rightarrow> (self3, Inl e)
       | Inr params \<Rightarrow>
           if max_batch_size config > 0 then
             (case torch_compile (torch_compile_rejects rt) batch_torch_tensors params of
                Inl e \<Rightarrow> (self3, Inl e)
              | Inr b \<Rightarrow>
                  (case torch_compile (torch_compile_rejects rt) unbatch_torch_tensors params of
                     Inl e \<Rightarrow> (self3\<lparr>self_batcher := Some b\<rparr>, Inl e)
                   | Inr u \<Rightarrow>
                       (self3\<lparr>self_batcher := Some b, self_unbatcher := Some u\<rparr>,
                        Inr (config, params))))
           else (self3, Inr (config, params))))))))"

definition load_torchscript ::
  "('a, 'm, 'c, 's) runtime \<Rightarrow> string \<Rightarrow> ('a, 'm, 'c) self
     \<Rightarrow> ('a, 'm, 'c) self \<times> error option" where
  "load_torchscript rt model_path self0 =
     (case torch_jit_load rt model_path of
        Inl e \<Rightarrow> (self0, Some e)
      | Inr m \<Rightarrow>
          (case attr (self_device self0) of
             Inl e \<Rightarrow> (self0\<lparr>self_model := Some m\<rparr>, Some e)
           | Inr dev \<Rightarrow>
               (case torch_object_to_device (module_to rt) m dev of
                  Inl e \<Rightarrow> (self0\<lparr>self_model := Some m\<rparr>, Some e)
                | Inr m' \<Rightarrow> (self0\<lparr>self_model := Some (module_eval rt m')\<rparr>, None))))"

text \<open>
  The class-based branch. \<open>load_parameters\<close> is lines 245 to 251: the parameter file,
  when there is one, is read onto the device and loaded into the instance.
\<close>

definition load_parameters ::
  "host \<Rightarrow> ('a, 'm, 'c, 's) runtime \<Rightarrow> string \<Rightarrow> torch_device option \<Rightarrow> 'm \<Rightarrow> error + 'm" where
  "load_parameters h rt model_path dev raw =
     (let data_path = get_model_data_path h model_path in
      if data_path \<noteq> []
      then (case torch_load rt data_path dev of
              Inl e \<Rightarrow> Inl e
            | Inr state \<Rightarrow> load_state_dict rt raw state)
      else Inr raw)"

definition load_py_class ::
  "host \<Rightarrow> ('a, 'm, 'c, 's) runtime \<Rightarrow> args \<Rightarrow> json \<Rightarrow> string \<Rightarrow> ('a, 'm, 'c) self
     \<Rightarrow> ('a, 'm, 'c) self \<times> error option" where
  "load_py_class h rt a params model_path self0 =
     (case import_module_from_path rt (model_name a) model_path of
        Inl e \<Rightarrow> (self0, Some e)
      | Inr py_mod \<Rightarrow>
     (case get_model_class_from_module (derives_nn_Module rt) py_mod of
        Inl e \<Rightarrow> (self0\<lparr>self_model_module := Some py_mod\<rparr>, Some e)
      | Inr cls \<Rightarrow>
     (case instantiate rt cls of
        Inl e \<Rightarrow> (self0\<lparr>self_model_module := Some py_mod, self_model_class := Some cls\<rparr>, Some e)
      | Inr raw \<Rightarrow>
     (case attr (self_device self0) of
        Inl e \<Rightarrow>
          (self0\<lparr>self_model_module := Some py_mod, self_model_class := Some cls,
                 self_raw_model := Some raw\<rparr>, Some e)
      | Inr dev \<Rightarrow>
     (case load_parameters h rt model_path dev raw of
        Inl e \<Rightarrow>
          (self0\<lparr>self_model_module := Some py_mod, self_model_class := Some cls,
                 self_raw_model := Some raw\<rparr>, Some e)
      | Inr raw1 \<Rightarrow>
     (case torch_object_to_device (module_to rt) raw1 dev of
        Inl e \<Rightarrow>
          (self0\<lparr>self_model_module := Some py_mod, self_model_class := Some cls,
                 self_raw_model := Some raw1\<rparr>, Some e)
      | Inr raw2 \<Rightarrow>
     (case torch_compile (torch_compile_rejects rt) (module_eval rt raw2) params of
        Inl e \<Rightarrow>
          (self0\<lparr>self_model_module := Some py_mod, self_model_class := Some cls,
                 self_raw_model := Some (module_eval rt raw2)\<rparr>, Some e)
      | Inr m \<Rightarrow>
          (self0\<lparr>self_model_module := Some py_mod, self_model_class := Some cls,
                 self_raw_model := Some (module_eval rt raw2), self_model := Some m\<rparr>,
           None))))))))"

definition load_model ::
  "host \<Rightarrow> ('a, 'm, 'c, 's) runtime \<Rightarrow> args \<Rightarrow> model_config \<Rightarrow> json \<Rightarrow> ('a, 'm, 'c) self
     \<Rightarrow> ('a, 'm, 'c) self \<times> error option" where
  "load_model h rt a config params self0 =
     (case get_model_path h config of
        Inl e \<Rightarrow> (self0, Some e)
      | Inr model_path \<Rightarrow>
          if \<not> is_py_class_model model_path then load_torchscript rt model_path self0
          else load_py_class h rt a params model_path self0)"

definition initialize ::
  "host \<Rightarrow> ('a, 'm, 'c, 's) runtime \<Rightarrow> args \<Rightarrow> ('a, 'm, 'c) self
     \<Rightarrow> ('a, 'm, 'c) self \<times> error option" where
  "initialize h rt a self0 =
     (case initialize_config rt a self0 of
        (self1, Inl e) \<Rightarrow> (self1, Some e)
      | (self1, Inr (config, params)) \<Rightarrow> load_model h rt a config params self1)"

section \<open>execute\<close>

text \<open>
  An inference request is the list of its named input tensors, and
  \<^verbatim>\<open>pb_utils.get_input_tensor_by_name\<close> gives the first of that name or \<^verbatim>\<open>None\<close>, on
  which \<^verbatim>\<open>.to_dlpack()\<close> raises AttributeError. A response is the list of its named
  output tensors; \<^verbatim>\<open>detach()\<close> and the conversions through DLPack keep a tensor's shape,
  elements and device.
\<close>

type_synonym 'a inference_request = "(string \<times> 'a tensor) list"

datatype 'a inference_response = InferenceResponse (output_tensors: "(string \<times> 'a tensor) list")

definition get_input_tensor_by_name :: "'a inference_request \<Rightarrow> string \<Rightarrow> 'a tensor option" where
  "get_input_tensor_by_name request nm = map_of request nm"

text \<open>Lines 281 to 291: the tensors of one request, in the order of the configured inputs.\<close>

definition input_tensor ::
  "('a, 'm, 'c) self \<Rightarrow> 'a inference_request \<Rightarrow> string \<Rightarrow> error + 'a tensor" where
  "input_tensor self0 request io =
     (case get_input_tensor_by_name request io of
        None \<Rightarrow> Inl AttributeError
      | Some t \<Rightarrow>
          (case attr (self_device self0) of
             Inl e \<Rightarrow> Inl e
           | Inr dev \<Rightarrow> torch_object_to_device tensor_to t dev))"

definition request_tensors ::
  "('a, 'm, 'c) self \<Rightarrow> 'a inference_request \<Rightarrow> error + 'a tensor list" where
  "request_tensors self0 request =
     (case attr (self_inputs self0) of
        Inl e \<Rightarrow> Inl e
      | Inr ins \<Rightarrow> map_result (input_tensor self0 request) ins)"

text \<open>Lines 298 to 304: one call of the model, its result made a sequence.\<close>

definition invoke_model ::
  "('a, 'm, 'c, 's) runtime \<Rightarrow> ('a, 'm, 'c) self \<Rightarrow> 'a tensor list \<Rightarrow> error + 'a tensor list" where
  "invoke_model rt self0 input_tensors =
     (case attr (self_model self0) of
        Inl e \<Rightarrow> Inl e
      | Inr m \<Rightarrow>
          (case call_model rt m input_tensors of
             Inl e \<Rightarrow> Inl e
           | Inr (OneTensor t) \<Rightarrow> Inr [t]
           | Inr (TensorSeq ts) \<Rightarrow> Inr ts))"

text \<open>
  Lines 309 to 319: output \<open>i\<close> is named by the configured output \<open>i\<close>;
  \<^verbatim>\<open>response_tensors[i]\<close> raises IndexError when the model gave fewer tensors.
\<close>

definition make_response ::
  "('a, 'm, 'c) self \<Rightarrow> 'a tensor list \<Rightarrow> error + 'a inference_response" where
  "make_response self0 response_tensors =
     (case attr (self_outputs self0) of
        Inl e \<Rightarrow> Inl e
      | Inr outs \<Rightarrow>
          (case map_result
                  (\<lambda>i. if i < length response_tensors
                       then Inr (outs ! i, response_tensors ! i) else Inl IndexError)
                  [0..<length outs] of
             Inl e \<Rightarrow> Inl e
           | Inr named \<Rightarrow> Inr (InferenceResponse named)))"

definition execute ::
  "('a, 'm, 'c, 's) runtime \<Rightarrow> ('a, 'm, 'c) self \<Rightarrow> 'a inference_request list
     \<Rightarrow> error + 'a inference_response list" where
  "execute rt self0 requests =
     (case map_result (request_tensors self0) requests of
        Inl e \<Rightarrow> Inl e
      | Inr requests_tensors \<Rightarrow>
     (case attr (self_support_batching self0) of
        Inl e \<Rightarrow> Inl e
      | Inr support_batching \<Rightarrow>
     (case (if support_batching
            then (case attr (self_batcher self0) of
                    Inl e \<Rightarrow> Inl e
                  | Inr batcher \<Rightarrow>
                      (case batcher requests_tensors of
                         Inl e \<Rightarrow> Inl e
                       | Inr (merged, sections) \<Rightarrow> Inr (merged, Some sections)))
            else Inr (requests_tensors, None)) of
        Inl e \<Rightarrow> Inl e
      | Inr (calls, sections) \<Rightarrow>
     (case map_result (invoke_model rt self0) calls of
        Inl e \<Rightarrow> Inl e
      | Inr responses_tensors \<Rightarrow>
     (case (if support_batching
            then (case attr (self_unbatcher self0) of
                    Inl e \<Rightarrow> Inl e
                  | Inr unbatcher \<Rightarrow>
                      (case responses_tensors of
                         [] \<Rightarrow> Inl IndexError
                       | r0 # rs \<Rightarrow>
                           (case sections of
                              None \<Rightarrow> Inl TypeError
                            | Some secs \<Rightarrow> unbatcher r0 secs)))
            else Inr responses_tensors) of
        Inl e \<Rightarrow> Inl e
      | Inr per_request \<Rightarrow> map_result (make_response self0) per_request)))))"

section \<open>Batching followed by unbatching\<close>

text \<open>
  What \<^verbatim>\<open>execute\<close> does around a model that returns its input tensors, slot by slot
  (lines 295 and 307): the batcher's single merged set is what the model returns, and
  the unbatcher splits it with the sections the batcher recorded.
\<close>

definition batch_then_unbatch :: "'a tensor list list \<Rightarrow> error + 'a tensor list list" where
  "batch_then_unbatch requests_tensors =
     (case batch_torch_tensors requests_tensors of
        Inl e \<Rightarrow> Inl e
      | Inr (merged, sections) \<Rightarrow>
          (case merged of
             [] \<Rightarrow> Inl IndexError
           | response_tensors # others \<Rightarrow> unbatch_torch_tensors response_tensors sections))"

text \<open>
  A name of a module qualifies when its attribute is a class that is the network-module
  base or derives from it, which is when \<^verbatim>\<open>issubclass\<close> returns \<^verbatim>\<open>True\<close> on it.
\<close>

definition qualifies :: "('c \<Rightarrow> bool) \<Rightarrow> 'c py_module \<Rightarrow> string \<Rightarrow> bool" where
  "qualifies derives py_mod nm =
     (case getattr py_mod nm of Inr (PyClass c) \<Rightarrow> derives c | _ \<Rightarrow> False)"

section \<open>A concrete host and runtime\<close>

text \<open>
  The inputs at which the theorems below are instantiated: a model named \<open>net\<close> with one
  input \<open>x\<close> and one output \<open>y\<close>, a runtime whose model objects are strings and whose
  models return their input tensors, and a module that exports the class \<open>Net\<close>.
\<close>

definition example_config :: model_config where
  "example_config =
     \<lparr>max_batch_size = 0,
      input_config = [\<lparr>io_name = ''x'', io_data_type = ''TYPE_INT32'', io_dims = [1]\<rparr>],
      output_config = [\<lparr>io_name = ''y'', io_data_type = ''TYPE_INT32'', io_dims = [1]\<rparr>],
      default_model_filename = ''net.pt'',
      parameters = Map.empty\<rparr>"

definition example_host :: host where
  "example_host =
     \<lparr>get_model_dir = ''/models/net/1'',
      os_path_exists = (\<lambda>p. p = ''/models/net/1/net.pt'' \<or> p = ''/models/net/1/model.py'')\<rparr>"

definition empty_host :: host where
  "empty_host = \<lparr>get_model_dir = ''/models/net/1'', os_path_exists = (\<lambda>p. False)\<rparr>"

definition example_module :: "string py_module" where
  "example_module = [(''Net'', PyClass ''Net''), (''__name__'', PyOther), (''torch'', PyOther)]"

definition example_runtime :: "(int, string, string, unit) runtime" where
  \<open>example_runtime =
     \<lparr>parse_model_config =
        (\<lambda>text. if text = ''unbatched'' then Inr example_config
                 else if text = ''batched'' then Inr (example_config\<lparr>max_batch_size := 8\<rparr>)
                 else Inl (HostError ''JSONDecodeError'')),
      json_loads =
        (\<lambda>text. if text = ''{"fullgraph": true}'' then Inr (JObject [(''fullgraph'', JBool True)])
                 else if text = ''{"model": 1}'' then Inr (JObject [(''model'', JInt 1)])
                 else Inl (HostError ''JSONDecodeError'')),
      torch_set = (\<lambda>setting val. None),
      torch_compile_rejects = (\<lambda>params. None),
      torch_jit_load = (\<lambda>path. Inr path),
      module_to = (\<lambda>m d. Inr m),
      module_eval = (\<lambda>m. m),
      exec_module = (\<lambda>module_name file_path. Inr example_module),
      derives_nn_Module = (\<lambda>c. c = ''Net''),
      instantiate = (\<lambda>cls. case cls of PyClass c \<Rightarrow> Inr c | PyOther \<Rightarrow> Inl TypeError),
      torch_load = (\<lambda>path dev. Inr ()),
      load_state_dict = (\<lambda>m state. Inr m),
      call_model = (\<lambda>m ts. Inr (TensorSeq ts))\<rparr>\<close>

definition example_args :: "string \<Rightarrow> args" where
  "example_args text =
     \<lparr>model_config = text, model_instance_kind = ''CPU'', model_instance_device_id = ''0'',
      model_name = ''net''\<rparr>"

text \<open>
  The handler objects that \<^verbatim>\<open>initialize\<close> leaves on the example host: one for the
  configuration without batching, one for the configuration with a maximum batch size
  of 8.
\<close>

definition unbatched_self :: "(int, string, string) self" where
  "unbatched_self =
     \<lparr>self_model_name = Some ''net'', self_model_config = Some example_config,
      self_support_batching = Some False, self_inputs = Some [''x''],
      self_outputs = Some [''y''], self_infer_mode = True,
      self_device = Some (Some (TorchDevice ''cpu'')), self_batcher = None,
      self_unbatcher = None, self_model = Some ''/models/net/1/net.pt'',
      self_model_module = None, self_model_class = None, self_raw_model = None\<rparr>"

definition batched_self :: "(int, string, string) self" where
  "batched_self =
     unbatched_self
       \<lparr>self_model_config := Some (example_config\<lparr>max_batch_size := 8\<rparr>),
        self_support_batching := Some True,
        self_batcher := Some batch_torch_tensors,
        self_unbatcher := Some unbatch_torch_tensors\<rparr>"

section \<open>Properties of batching and unbatching\<close>

lemma batch_slots_fresh: "batch_slots acc (length acc) xs = Inr (acc @ xs)"
proof (induction xs arbitrary: acc)
  case Nil
  show ?case by simp
next
  case (Cons x xs)
  from Cons.IH [of "acc @ [x]"] show ?case by simp
qed

text \<open>
  Once \<open>batch_tensors\<close> has a tensor for every slot of a request, the request leaves it
  as it is: the concatenation is computed and dropped.
\<close>

lemma batch_slots_full:
  "batch_slots bt j req = Inr bt' \<Longrightarrow> j + length req \<le> length bt \<Longrightarrow> bt' = bt"
  by (induction req arbitrary: j) (auto split: sum.splits if_splits)

lemma batch_requests_first:
  "batch_requests bt secs rs = Inr (merged, sections)
     \<Longrightarrow> list_all (\<lambda>r. length r \<le> length bt) rs
     \<Longrightarrow> merged = [bt] \<and> sections = secs @ map (\<lambda>r. hd (shape (hd r))) rs"
proof (induction rs arbitrary: secs)
  case Nil
  then show ?case by simp
next
  case (Cons r rs)
  from Cons.prems(2) have len: "0 + length r \<le> length bt"
    and rest: "list_all (\<lambda>r. length r \<le> length bt) rs"
    by simp_all
  from Cons.prems(1) obtain bt' where slots: "batch_slots bt 0 r = Inr bt'"
    by (auto split: sum.splits)
  from batch_slots_full [OF slots len] have same: "bt' = bt" .
  from Cons.prems(1) slots same obtain t0 ts n where r: "r = t0 # ts" and n: "size0 t0 = Inr n"
    and step: "batch_requests bt (secs @ [n]) rs = Inr (merged, sections)"
    by (auto split: sum.splits list.splits)
  from n have "hd (shape (hd r)) = n"
    by (auto simp: r size0_def split: list.splits)
  with Cons.IH [OF step rest] show ?case by simp
qed

lemma batch_single:
  assumes "size0 t0 = Inr n"
  shows "batch_torch_tensors [t0 # ts] = Inr ([t0 # ts], [n])"
proof -
  have "batch_slots [] 0 (t0 # ts) = Inr (t0 # ts)"
    using batch_slots_fresh [of "[]" "t0 # ts"] by simp
  with assms show ?thesis
    by (simp add: batch_torch_tensors_def del: batch_slots.simps)
qed

text \<open>
  What the batcher returns when every request has as many tensors as the first: the
  merged set is the first request's tensors alone, and there is a section for every
  request.
\<close>

lemma batch_keeps_first_request:
  assumes "batch_torch_tensors (r # rs) = Inr (merged, sections)"
    and "list_all (\<lambda>q. length q \<le> length r) rs"
  shows "merged = [r] \<and> sections = map (\<lambda>q. hd (shape (hd q))) (r # rs)"
proof -
  from assms(1) obtain t0 ts n where r: "r = t0 # ts" and n: "size0 t0 = Inr n"
    by (cases r) (auto simp: batch_torch_tensors_def split: sum.splits)
  have slots: "batch_slots [] 0 r = Inr r"
    using batch_slots_fresh [of "[]" r] by simp
  from assms(1) slots r n have step: "batch_requests r [n] rs = Inr (merged, sections)"
    by (simp add: batch_torch_tensors_def del: batch_slots.simps)
  from n have "hd (shape (hd r)) = n"
    by (auto simp: r size0_def split: list.splits)
  with batch_requests_first [OF step assms(2)] show ?thesis by simp
qed

lemma torch_split_whole:
  "wf_tensor t \<Longrightarrow> size0 t = Inr n \<Longrightarrow> torch_split t [n] = Inr [t]"
  by (cases t) (auto simp: wf_tensor_def size0_def torch_split_def split: list.splits)

lemma unbatch_slots_single:
  "list_all (\<lambda>t. wf_tensor t \<and> size0 t = Inr n) ts
     \<Longrightarrow> unbatch_slots [xs] [n] ts = Inr [xs @ ts]"
  by (induction ts arbitrary: xs) (simp_all add: torch_split_whole)

lemma unbatch_single:
  "list_all (\<lambda>t. wf_tensor t \<and> size0 t = Inr n) (t0 # ts)
     \<Longrightarrow> unbatch_torch_tensors (t0 # ts) [n] = Inr [t0 # ts]"
  using unbatch_slots_single [of n ts "[t0]"]
  by (simp add: unbatch_torch_tensors_def torch_split_whole)

text \<open>
  Claim C10. For a call with exactly one request whose tensor set is not empty, the
  batcher returns that request's tensor list unchanged as the single merged set, and the
  one-element sections holding the axis-0 length \<open>n\<close> of the request's slot-0 tensor.
  When every tensor of the request is well formed and has that axis-0 length, batching
  followed by unbatching gives the request's tensors back.
\<close>

theorem single_request_batch:
  "size0 t0 = Inr n \<Longrightarrow>
     batch_torch_tensors [t0 # ts] = Inr ([t0 # ts], [n]) \<and>
     (list_all (\<lambda>t. wf_tensor t \<and> size0 t = Inr n) (t0 # ts)
        \<longrightarrow> batch_then_unbatch [t0 # ts] = Inr [t0 # ts])"
  using unbatch_single [of n t0 ts] batch_single [of t0 n ts]
  by (simp add: batch_then_unbatch_def)

theorem single_request_batch_witness:
  "size0 (Tensor [2, 2] [1, 2, 3, 4 :: int] (TorchDevice ''cpu'')) = Inr 2 \<and>
   list_all (\<lambda>t. wf_tensor t \<and> size0 t = Inr 2)
     [Tensor [2, 2] [1, 2, 3, 4 :: int] (TorchDevice ''cpu''),
      Tensor [2] [5, 6] (TorchDevice ''cpu'')] \<and>
   batch_torch_tensors
     [[Tensor [2, 2] [1, 2, 3, 4 :: int] (TorchDevice ''cpu''),
       Tensor [2] [5, 6] (TorchDevice ''cpu'')]] =
     Inr ([[Tensor [2, 2] [1, 2, 3, 4] (TorchDevice ''cpu''),
            Tensor [2] [5, 6] (TorchDevice ''cpu'')]], [2]) \<and>
   batch_then_unbatch
     [[Tensor [2, 2] [1, 2, 3, 4 :: int] (TorchDevice ''cpu''),
       Tensor [2] [5, 6] (TorchDevice ''cpu'')]] =
     Inr [[Tensor [2, 2] [1, 2, 3, 4] (TorchDevice ''cpu''),
           Tensor [2] [5, 6] (TorchDevice ''cpu'')]]"
  using single_request_batch
    [of "Tensor [2, 2] [1, 2, 3, 4 :: int] (TorchDevice ''cpu'')" 2
        "[Tensor [2] [5, 6] (TorchDevice ''cpu'')]"]
  by (simp add: size0_def wf_tensor_def)

text \<open>
  Claim C1. Splitting the batched tensors with the recorded sections should give every
  request its tensors back. On two requests of one tensor of one row each, the batcher
  returns the first request's tensor alone with the sections \<open>[1, 1]\<close>, and the split of
  a tensor of one row into two sections of one row raises: the second request's tensor
  is never part of the merged tensor.
\<close>

theorem batch_drops_later_requests:
  "batch_torch_tensors
     [[Tensor [1] [10 :: int] (TorchDevice ''cpu'')],
      [Tensor [1] [20] (TorchDevice ''cpu'')]] =
     Inr ([[Tensor [1] [10] (TorchDevice ''cpu'')]], [1, 1]) \<and>
   batch_then_unbatch
     [[Tensor [1] [10 :: int] (TorchDevice ''cpu'')],
      [Tensor [1] [20] (TorchDevice ''cpu'')]] = Inl RuntimeError"
  by (simp add: batch_then_unbatch_def batch_torch_tensors_def unbatch_torch_tensors_def
      torch_cat_def torch_split_def size0_def)

text \<open>
  Claim C2. The sections should add up to the axis-0 length of the merged tensor. On
  three requests of 1, 4 and 2 rows the sections are \<open>[1, 4, 2]\<close>, which add up to 7,
  and the merged tensor is the first request's, of 1 row.
\<close>

theorem sections_sum_exceeds_merged:
  "batch_torch_tensors
     [[Tensor [1] [10 :: int] (TorchDevice ''cpu'')],
      [Tensor [4] [20, 21, 22, 23] (TorchDevice ''cpu'')],
      [Tensor [2] [30, 31] (TorchDevice ''cpu'')]] =
     Inr ([[Tensor [1] [10] (TorchDevice ''cpu'')]], [1, 4, 2]) \<and>
   sum_list [1, 4, 2 :: nat] = 7 \<and>
   size0 (Tensor [1] [10 :: int] (TorchDevice ''cpu'')) = Inr 1"
  by (simp add: batch_torch_tensors_def torch_cat_def size0_def)

section \<open>Properties of the model locator\<close>

lemma first_model_path_find:
  "first_model_path h fs = List.find (os_path_exists h) (map (os_path_join (get_model_dir h)) fs)"
  by (induction fs) (simp_all add: Let_def)

lemma first_model_path_Some:
  "first_model_path h fs = Some p \<longleftrightarrow>
     (\<exists>i<length fs. p = os_path_join (get_model_dir h) (fs ! i) \<and> os_path_exists h p \<and>
        (\<forall>j<i. \<not> os_path_exists h (os_path_join (get_model_dir h) (fs ! j))))"
  unfolding first_model_path_find find_Some_iff by auto

lemma first_model_path_None:
  "first_model_path h fs = None \<longleftrightarrow>
     list_all (\<lambda>f. \<not> os_path_exists h (os_path_join (get_model_dir h) f)) fs"
  by (induction fs) (simp_all add: Let_def)

text \<open>
  The candidate path is \<^verbatim>\<open>os.path.join\<close> of the model directory and the file name: the
  name after the directory and a separator, and the name alone when it is absolute.
\<close>

lemma os_path_join_cases:
  "os_path_join (d @ ''/'') (CHR ''m'' # f) = d @ ''/'' @ CHR ''m'' # f \<and>
   os_path_join (d @ ''x'') (CHR ''m'' # f) = d @ ''x/'' @ CHR ''m'' # f \<and>
   os_path_join d (CHR ''/'' # f) = CHR ''/'' # f"
  by (simp add: os_path_join_def)

text \<open>
  Claim C5. The candidate file names are the configured default file name, when it is
  not empty, followed by \<open>model.py\<close>, \<open>model.pt\<close> and \<open>model.pth\<close>;
  \<^verbatim>\<open>_get_model_path\<close> returns a path exactly when it is the model directory joined with
  the first candidate, in that order, whose path exists. In particular, when the
  configured file exists its path is returned, whether or not \<open>model.py\<close> exists too.
\<close>

theorem get_model_path_order:
  "model_filenames config =
     (if default_model_filename config = [] then [] else [default_model_filename config])
       @ [''model.py'', ''model.pt'', ''model.pth''] \<and>
   (get_model_path h config = Inr p \<longleftrightarrow>
      (\<exists>i<length (model_filenames config).
         p = os_path_join (get_model_dir h) (model_filenames config ! i) \<and>
         os_path_exists h p \<and>
         (\<forall>j<i. \<not> os_path_exists h
                   (os_path_join (get_model_dir h) (model_filenames config ! j))))) \<and>
   (default_model_filename config \<noteq> [] \<and>
    os_path_exists h (os_path_join (get_model_dir h) (default_model_filename config))
      \<longrightarrow> get_model_path h config =
            Inr (os_path_join (get_model_dir h) (default_model_filename config)))"
proof (intro conjI)
  show "model_filenames config =
     (if default_model_filename config = [] then [] else [default_model_filename config])
       @ [''model.py'', ''model.pt'', ''model.pth'']"
    by (simp add: model_filenames_def)
next
  show "get_model_path h config = Inr p \<longleftrightarrow>
      (\<exists>i<length (model_filenames config).
         p = os_path_join (get_model_dir h) (model_filenames config ! i) \<and>
         os_path_exists h p \<and>
         (\<forall>j<i. \<not> os_path_exists h
                   (os_path_join (get_model_dir h) (model_filenames config ! j))))"
  proof -
    have "get_model_path h config = Inr p \<longleftrightarrow>
        first_model_path h (model_filenames config) = Some p"
      by (simp add: get_model_path_def split: option.splits)
    then show ?thesis by (simp only: first_model_path_Some)
  qed
next
  show "default_model_filename config \<noteq> [] \<and>
    os_path_exists h (os_path_join (get_model_dir h) (default_model_filename config))
      \<longrightarrow> get_model_path h config =
            Inr (os_path_join (get_model_dir h) (default_model_filename config))"
    by (simp add: get_model_path_def model_filenames_def)
qed

theorem get_model_path_order_witness:
  "default_model_filename example_config \<noteq> [] \<and>
   os_path_exists example_host ''/models/net/1/net.pt'' \<and>
   os_path_exists example_host ''/models/net/1/model.py'' \<and>
   get_model_path example_host example_config = Inr ''/models/net/1/net.pt''"
  using get_model_path_order [of example_config example_host "''/models/net/1/net.pt''"]
  by (simp add: example_config_def example_host_def os_path_join_def)

lemma get_model_path_Inl:
  "get_model_path h config = Inl e \<longleftrightarrow>
     e = ModelNotFound (get_model_dir h) (model_filenames config) \<and>
     list_all (\<lambda>f. \<not> os_path_exists h (os_path_join (get_model_dir h) f))
       (model_filenames config)"
  using first_model_path_None [of h "model_filenames config"]
  by (auto simp: get_model_path_def split: option.splits)

lemma initialize_config_model:
  "self_model (fst (initialize_config rt a self0)) = self_model self0"
  by (simp add: initialize_config_def Let_def split: sum.splits option.splits)

lemma initialize_config_parsed:
  "snd (initialize_config rt a self0) = Inr (config, params)
     \<Longrightarrow> parse_model_config rt (model_config a) = Inr config"
  by (simp add: initialize_config_def Let_def split: sum.splits option.splits if_splits)

lemma initialize_no_model_path:
  assumes "get_model_path h config = Inl e"
    and "parse_model_config rt (model_config a) = Inr config"
  shows "snd (initialize h rt a self0) \<noteq> None \<and>
         self_model (fst (initialize h rt a self0)) = self_model self0"
proof (cases "initialize_config rt a self0")
  case (Pair self1 r)
  from Pair have model: "self_model self1 = self_model self0"
    using initialize_config_model [of rt a self0] by simp
  show ?thesis
  proof (cases r)
    case (Inl e')
    with Pair model show ?thesis by (simp add: initialize_def)
  next
    case (Inr cp)
    obtain config' params where cp: "cp = (config', params)" by (cases cp)
    from Pair Inr cp have "parse_model_config rt (model_config a) = Inr config'"
      using initialize_config_parsed [of rt a self0 config' params] by simp
    with assms(2) have "config' = config" by simp
    with Pair Inr cp model assms(1) show ?thesis
      by (simp add: initialize_def load_model_def)
  qed
qed

text \<open>
  Claim C6. \<^verbatim>\<open>_get_model_path\<close> fails exactly when none of the candidate paths
  exists, and its failure is the \<open>ModelNotFound\<close> exception. In that case
  \<^verbatim>\<open>initialize\<close> on a new object ends with an exception and leaves \<^verbatim>\<open>self._model\<close>
  unassigned; when the steps before the lookup succeed, the exception is
  \<open>ModelNotFound\<close>.
\<close>

theorem model_not_found:
  "(get_model_path h config = Inl e \<longleftrightarrow>
      e = ModelNotFound (get_model_dir h) (model_filenames config) \<and>
      list_all (\<lambda>f. \<not> os_path_exists h (os_path_join (get_model_dir h) f))
        (model_filenames config)) \<and>
   is_TritonModelException (ModelNotFound (get_model_dir h) (model_filenames config)) \<and>
   (parse_model_config rt (model_config a) = Inr config \<and>
    list_all (\<lambda>f. \<not> os_path_exists h (os_path_join (get_model_dir h) f))
      (model_filenames config) \<longrightarrow>
      snd (initialize h rt a new_self) \<noteq> None \<and>
      self_model (fst (initialize h rt a new_self)) = None) \<and>
   (snd (initialize_config rt a new_self) = Inr (config, params) \<and>
    list_all (\<lambda>f. \<not> os_path_exists h (os_path_join (get_model_dir h) f))
      (model_filenames config) \<longrightarrow>
      snd (initialize h rt a new_self) =
        Some (ModelNotFound (get_model_dir h) (model_filenames config)))"
proof (intro conjI impI)
  show "get_model_path h config = Inl e \<longleftrightarrow>
      e = ModelNotFound (get_model_dir h) (model_filenames config) \<and>
      list_all (\<lambda>f. \<not> os_path_exists h (os_path_join (get_model_dir h) f))
        (model_filenames config)"
    by (rule get_model_path_Inl)
next
  show "is_TritonModelException (ModelNotFound (get_model_dir h) (model_filenames config))"
    by simp
next
  assume a: "parse_model_config rt (model_config a) = Inr config \<and>
    list_all (\<lambda>f. \<not> os_path_exists h (os_path_join (get_model_dir h) f))
      (model_filenames config)"
  then have "get_model_path h config =
      Inl (ModelNotFound (get_model_dir h) (model_filenames config))"
    by (simp add: get_model_path_Inl)
  from initialize_no_model_path [OF this, of rt a new_self] a
  show "snd (initialize h rt a new_self) \<noteq> None"
    and "self_model (fst (initialize h rt a new_self)) = None"
    by (simp_all add: new_self_def)
next
  assume a: "snd (initialize_config rt a new_self) = Inr (config, params) \<and>
    list_all (\<lambda>f. \<not> os_path_exists h (os_path_join (get_model_dir h) f))
      (model_filenames config)"
  then have "get_model_path h config =
      Inl (ModelNotFound (get_model_dir h) (model_filenames config))"
    by (simp add: get_model_path_Inl)
  with a show "snd (initialize h rt a new_self) =
      Some (ModelNotFound (get_model_dir h) (model_filenames config))"
    by (cases "initialize_config rt a new_self") (simp add: initialize_def load_model_def)
qed

lemma initialize_config_example:
  "snd (initialize_config example_runtime (example_args ''unbatched'') new_self) =
     Inr (example_config, JObject [])"
  by (simp add: initialize_config_def example_runtime_def example_args_def example_config_def
      new_self_def set_torch_parallelism_def get_torch_compile_params_def)

theorem model_not_found_witness:
  "parse_model_config example_runtime (model_config (example_args ''unbatched'')) =
     Inr example_config \<and>
   list_all (\<lambda>f. \<not> os_path_exists empty_host (os_path_join (get_model_dir empty_host) f))
     (model_filenames example_config) \<and>
   get_model_path empty_host example_config =
     Inl (ModelNotFound ''/models/net/1'' [''net.pt'', ''model.py'', ''model.pt'', ''model.pth'']) \<and>
   snd (initialize empty_host example_runtime (example_args ''unbatched'') new_self) =
     Some (ModelNotFound ''/models/net/1'' [''net.pt'', ''model.py'', ''model.pt'', ''model.pth'']) \<and>
   self_model (fst (initialize empty_host example_runtime (example_args ''unbatched'') new_self))
     = None"
  using model_not_found [of empty_host example_config
      "ModelNotFound ''/models/net/1'' [''net.pt'', ''model.py'', ''model.pt'', ''model.pth'']"
      example_runtime "example_args ''unbatched''" "JObject []"]
    initialize_config_example
  by (simp add: example_runtime_def example_args_def empty_host_def model_filenames_def
      example_config_def)

section \<open>Properties of device resolution, compiler parameters and class discovery\<close>

text \<open>
  Claim C7. The device is a function of the two strings: kind \<open>GPU\<close> with ordinal \<open>d\<close>
  gives \<open>cuda:\<close> followed by \<open>d\<close>, kind \<open>CPU\<close> gives \<open>cpu\<close> whatever the ordinal, and
  any other kind gives the empty name and no device, with which
  \<^verbatim>\<open>_torch_object_to_device\<close> returns the object as it is.
\<close>

theorem get_device_cases:
  "get_device_name ''GPU'' d = ''cuda:'' @ d \<and>
   get_device ''GPU'' d = Some (TorchDevice (''cuda:'' @ d)) \<and>
   get_device_name ''CPU'' d = ''cpu'' \<and>
   get_device ''CPU'' d = Some (TorchDevice ''cpu'') \<and>
   (k \<noteq> ''GPU'' \<and> k \<noteq> ''CPU'' \<longrightarrow>
      get_device_name k d = [] \<and> get_device k d = None \<and>
      torch_object_to_device to obj (get_device k d) = Inr obj)"
  by (simp add: get_device_name_def get_device_def torch_object_to_device_def)

theorem get_device_cases_witness:
  "''UNKNOWN'' \<noteq> ''GPU'' \<and> ''UNKNOWN'' \<noteq> ''CPU'' \<and>
   get_device_name ''GPU'' ''0'' = ''cuda:0'' \<and>
   get_device_name ''CPU'' ''0'' = ''cpu'' \<and>
   get_device_name ''UNKNOWN'' ''0'' = [] \<and> get_device ''UNKNOWN'' ''0'' = None \<and>
   torch_object_to_device tensor_to (Tensor [1] [5 :: int] (TorchDevice ''cpu''))
     (get_device ''UNKNOWN'' ''0'') = Inr (Tensor [1] [5] (TorchDevice ''cpu''))"
  using get_device_cases [of "''0''" "''UNKNOWN''" tensor_to "Tensor [1] [5 :: int] (TorchDevice ''cpu'')"]
  by auto

text \<open>
  Claim C8. Without the parameter \<open>TORCH_COMPILE_OPTIONAL_PARAMETERS\<close> the result is the
  empty mapping. When its string parses to a mapping, the extraction fails with
  \<open>InvalidCompileParameter\<close> exactly when \<open>model\<close> is a key of the mapping, and
  returns the mapping unchanged otherwise.
\<close>

theorem compile_params_reserved_key:
  "(parameters config ''TORCH_COMPILE_OPTIONAL_PARAMETERS'' = None
      \<longrightarrow> get_torch_compile_params loads config = Inr (JObject [])) \<and>
   (parameters config ''TORCH_COMPILE_OPTIONAL_PARAMETERS'' = Some val \<and>
    loads val = Inr (JObject items) \<longrightarrow>
      (get_torch_compile_params loads config = Inl InvalidCompileParameter
         \<longleftrightarrow> ''model'' \<in> set (map fst items)) \<and>
      (''model'' \<notin> set (map fst items)
         \<longrightarrow> get_torch_compile_params loads config = Inr (JObject items)))"
  by (simp add: get_torch_compile_params_def)

theorem compile_params_reserved_key_witness:
  \<open>parameters example_config ''TORCH_COMPILE_OPTIONAL_PARAMETERS'' = None \<and>
   get_torch_compile_params (json_loads example_runtime) example_config = Inr (JObject []) \<and>
   json_loads example_runtime ''{"model": 1}'' = Inr (JObject [(''model'', JInt 1)]) \<and>
   get_torch_compile_params (json_loads example_runtime)
     (example_config\<lparr>parameters :=
        [''TORCH_COMPILE_OPTIONAL_PARAMETERS'' \<mapsto> ''{"model": 1}'']\<rparr>) =
     Inl InvalidCompileParameter \<and>
   json_loads example_runtime ''{"fullgraph": true}'' =
     Inr (JObject [(''fullgraph'', JBool True)]) \<and>
   get_torch_compile_params (json_loads example_runtime)
     (example_config\<lparr>parameters :=
        [''TORCH_COMPILE_OPTIONAL_PARAMETERS'' \<mapsto> ''{"fullgraph": true}'']\<rparr>) =
     Inr (JObject [(''fullgraph'', JBool True)])\<close>
  using
    compile_params_reserved_key [of example_config "json_loads example_runtime"]
    compile_params_reserved_key
      [of \<open>example_config\<lparr>parameters :=
             [''TORCH_COMPILE_OPTIONAL_PARAMETERS'' \<mapsto> ''{"model": 1}'']\<rparr>\<close>
          "json_loads example_runtime" \<open>''{"model": 1}''\<close> "[(''model'', JInt 1)]"]
    compile_params_reserved_key
      [of \<open>example_config\<lparr>parameters :=
             [''TORCH_COMPILE_OPTIONAL_PARAMETERS'' \<mapsto> ''{"fullgraph": true}'']\<rparr>\<close>
          "json_loads example_runtime" \<open>''{"fullgraph": true}''\<close>
          "[(''fullgraph'', JBool True)]"]
  by (simp add: example_config_def example_runtime_def)

text \<open>
  What the extraction does when the string does not parse to a mapping: a list with the
  element \<open>model\<close> and a string containing \<open>model\<close> are rejected like the reserved key,
  a number raises TypeError, and a failure of the parser is passed on.
\<close>

lemma compile_params_other_values:
  "parameters config ''TORCH_COMPILE_OPTIONAL_PARAMETERS'' = Some val \<Longrightarrow>
     (loads val = Inr (JArray [JString ''model''])
        \<longrightarrow> get_torch_compile_params loads config = Inl InvalidCompileParameter) \<and>
     (loads val = Inr (JString ''remodelled'')
        \<longrightarrow> get_torch_compile_params loads config = Inl InvalidCompileParameter) \<and>
     (loads val = Inr (JInt n) \<longrightarrow> get_torch_compile_params loads config = Inl TypeError) \<and>
     (loads val = Inl e \<longrightarrow> get_torch_compile_params loads config = Inl e)"
  by (simp add: get_torch_compile_params_def)

lemma getattr_dir: "nm \<in> set (dir py_mod) \<Longrightarrow> \<exists>a. getattr py_mod nm = Inr a"
  by (auto simp: dir_def getattr_def map_of_eq_None_iff image_iff split: option.splits)

lemma scan_names_find:
  "set names \<subseteq> set (dir py_mod) \<Longrightarrow>
     scan_names derives py_mod names =
       (case List.find (qualifies derives py_mod) names of
          None \<Rightarrow> Inl NoModelClassFound
        | Some nm \<Rightarrow> getattr py_mod nm)"
proof (induction names)
  case Nil
  show ?case by simp
next
  case (Cons nm names)
  from Cons.prems obtain a where a: "getattr py_mod nm = Inr a"
    using getattr_dir [of nm py_mod] by auto
  from Cons show ?case
    by (cases a) (simp_all add: a qualifies_def issubclass_def)
qed

text \<open>
  Claim C9. The scan fails exactly when no name of the module qualifies, that is, no
  attribute is a class that derives from the network-module base, and its failure is
  \<open>NoModelClassFound\<close>; otherwise it returns the attribute of a name of the module,
  which is such a class. A name whose attribute is not a class raises TypeError on the
  subclass check and the scan goes on with the names after it.
\<close>

theorem model_class_scan:
  "(get_model_class_from_module derives py_mod = Inl e \<longleftrightarrow>
      e = NoModelClassFound \<and>
      list_all (\<lambda>nm. \<not> qualifies derives py_mod nm) (dir py_mod)) \<and>
   (get_model_class_from_module derives py_mod = Inr cls \<longrightarrow>
      (\<exists>nm c. nm \<in> set (dir py_mod) \<and> getattr py_mod nm = Inr cls \<and>
         cls = PyClass c \<and> derives c)) \<and>
   (getattr py_mod nm = Inr PyOther \<longrightarrow>
      scan_names derives py_mod (nm # names) = scan_names derives py_mod names)"
proof (intro conjI)
  have scan: "get_model_class_from_module derives py_mod =
      (case List.find (qualifies derives py_mod) (dir py_mod) of
         None \<Rightarrow> Inl NoModelClassFound
       | Some nm \<Rightarrow> getattr py_mod nm)"
    by (simp add: get_model_class_from_module_def scan_names_find)
  show "get_model_class_from_module derives py_mod = Inl e \<longleftrightarrow>
      e = NoModelClassFound \<and>
      list_all (\<lambda>nm. \<not> qualifies derives py_mod nm) (dir py_mod)"
  proof (cases "List.find (qualifies derives py_mod) (dir py_mod)")
    case None
    then have "list_all (\<lambda>nm. \<not> qualifies derives py_mod nm) (dir py_mod)"
      by (simp add: find_None_iff list_all_iff)
    with None show ?thesis
      by (auto simp: scan)
  next
    case (Some nm)
    then have "qualifies derives py_mod nm" and "nm \<in> set (dir py_mod)"
      by (auto simp: find_Some_iff)
    with Some show ?thesis
      by (auto simp: scan qualifies_def list_all_iff split: sum.splits py_attr.splits)
  qed
  show "get_model_class_from_module derives py_mod = Inr cls \<longrightarrow>
      (\<exists>nm c. nm \<in> set (dir py_mod) \<and> getattr py_mod nm = Inr cls \<and>
         cls = PyClass c \<and> derives c)"
  proof (cases "List.find (qualifies derives py_mod) (dir py_mod)")
    case None
    then show ?thesis by (simp add: scan)
  next
    case (Some nm)
    then have "qualifies derives py_mod nm" and "nm \<in> set (dir py_mod)"
      by (auto simp: find_Some_iff)
    with Some show ?thesis
      by (auto simp: scan qualifies_def split: sum.splits py_attr.splits)
  qed
  show "getattr py_mod nm = Inr PyOther \<longrightarrow>
      scan_names derives py_mod (nm # names) = scan_names derives py_mod names"
    by (simp add: issubclass_def)
qed

theorem model_class_scan_witness:
  "get_model_class_from_module (\<lambda>c. c = ''Net'')
     [(''Helper'', PyClass ''Helper''), (''Net'', PyClass ''Net''), (''torch'', PyOther)] =
     Inr (PyClass ''Net'') \<and>
   getattr [(''torch'', PyOther), (''Helper'', PyClass ''Helper'')] ''torch'' = Inr PyOther \<and>
   scan_names (\<lambda>c. c = ''Net'') [(''torch'', PyOther), (''Helper'', PyClass ''Helper'')]
     [''torch'', ''Helper''] =
   scan_names (\<lambda>c. c = ''Net'') [(''torch'', PyOther), (''Helper'', PyClass ''Helper'')]
     [''Helper''] \<and>
   list_all (\<lambda>nm. \<not> qualifies (\<lambda>c. c = ''Net'')
        [(''torch'', PyOther), (''Helper'', PyClass ''Helper'')] nm)
     (dir [(''torch'', PyOther), (''Helper'', PyClass ''Helper'')]) \<and>
   get_model_class_from_module (\<lambda>c. c = ''Net'')
     [(''torch'', PyOther), (''Helper'', PyClass ''Helper'')] = Inl NoModelClassFound"
proof -
  let ?m = "[(''torch'', PyOther), (''Helper'', PyClass ''Helper'')] :: string py_module"
  let ?d = "\<lambda>c. c = ''Net''"
  note inst = model_class_scan [of ?d ?m NoModelClassFound _ "''torch''" "[''Helper'']"]
  have attr_torch: "getattr ?m ''torch'' = Inr PyOther"
    by (simp add: getattr_def)
  have none: "list_all (\<lambda>nm. \<not> qualifies ?d ?m nm) (dir ?m)"
    by (simp add: dir_def qualifies_def getattr_def)
  from inst none have fails: "get_model_class_from_module ?d ?m = Inl NoModelClassFound"
    by blast
  from inst attr_torch have skip:
    "scan_names ?d ?m [''torch'', ''Helper''] = scan_names ?d ?m [''Helper'']"
    by blast
  have found: "get_model_class_from_module ?d
     [(''Helper'', PyClass ''Helper''), (''Net'', PyClass ''Net''), (''torch'', PyOther)] =
     Inr (PyClass ''Net'')"
    by (simp add: get_model_class_from_module_def dir_def getattr_def issubclass_def)
  from found attr_torch skip none fails show ?thesis
    by simp
qed


section \<open>Properties of execute\<close>

lemma map_result_length: "map_result f xs = Inr ys \<Longrightarrow> length ys = length xs"
  by (induction xs arbitrary: ys) (auto split: sum.splits)

lemma map_result_nth:
  "map_result f xs = Inr ys \<Longrightarrow> i < length xs \<Longrightarrow> f (xs ! i) = Inr (ys ! i)"
proof (induction xs arbitrary: ys i)
  case Nil
  then show ?case by simp
next
  case (Cons x xs)
  then show ?case
    by (cases i) (auto split: sum.splits)
qed

lemma execute_unbatched:
  "self_support_batching self0 = Some False \<Longrightarrow>
     execute rt self0 requests =
       (case map_result (request_tensors self0) requests of
          Inl e \<Rightarrow> Inl e
        | Inr requests_tensors \<Rightarrow>
            (case map_result (invoke_model rt self0) requests_tensors of
               Inl e \<Rightarrow> Inl e
             | Inr responses_tensors \<Rightarrow> map_result (make_response self0) responses_tensors))"
  by (simp add: execute_def attr_def split: sum.splits)

lemma execute_unbatched_alone:
  assumes off: "self_support_batching self0 = Some False"
    and run: "execute rt self0 requests = Inr responses"
  shows "length responses = length requests"
    and "j < length requests \<Longrightarrow> execute rt self0 [requests ! j] = Inr [responses ! j]"
proof -
  from run obtain ins outs where ins: "map_result (request_tensors self0) requests = Inr ins"
    and outs: "map_result (invoke_model rt self0) ins = Inr outs"
    and resp: "map_result (make_response self0) outs = Inr responses"
    by (auto simp: execute_unbatched [OF off] split: sum.splits)
  have l1: "length ins = length requests" and l2: "length outs = length ins"
    and l3: "length responses = length outs"
    using ins outs resp by (simp_all add: map_result_length)
  then show "length responses = length requests" by simp
  assume j: "j < length requests"
  with l1 l2 have "request_tensors self0 (requests ! j) = Inr (ins ! j)"
    and "invoke_model rt self0 (ins ! j) = Inr (outs ! j)"
    and "make_response self0 (outs ! j) = Inr (responses ! j)"
    using ins outs resp by (simp_all add: map_result_nth)
  then show "execute rt self0 [requests ! j] = Inr [responses ! j]"
    by (simp add: execute_unbatched [OF off])
qed

lemma initialize_config_unbatched:
  assumes "snd (initialize_config rt a new_self) = Inr (config, params)"
    and "max_batch_size config \<le> 0"
  shows "self_support_batching (fst (initialize_config rt a new_self)) = Some False \<and>
         self_batcher (fst (initialize_config rt a new_self)) = None \<and>
         self_unbatcher (fst (initialize_config rt a new_self)) = None"
  using assms
  by (auto simp: initialize_config_def Let_def new_self_def split: sum.splits option.splits if_splits)

lemma load_model_keeps:
  "self_support_batching (fst (load_model h rt a config params self0)) = self_support_batching self0 \<and>
   self_batcher (fst (load_model h rt a config params self0)) = self_batcher self0 \<and>
   self_unbatcher (fst (load_model h rt a config params self0)) = self_unbatcher self0"
  by (simp add: load_model_def load_torchscript_def load_py_class_def split: sum.splits)

lemma initialize_unbatched:
  assumes init: "initialize h rt a new_self = (self0, None)"
    and cfg: "parse_model_config rt (model_config a) = Inr config"
    and off: "max_batch_size config \<le> 0"
  shows "self_support_batching self0 = Some False \<and> self_batcher self0 = None \<and>
         self_unbatcher self0 = None"
proof (cases "initialize_config rt a new_self")
  case (Pair self1 r)
  show ?thesis
  proof (cases r)
    case (Inl e)
    with Pair init show ?thesis by (simp add: initialize_def)
  next
    case (Inr cp)
    obtain config' params where cp: "cp = (config', params)" by (cases cp)
    from Pair Inr cp have r: "snd (initialize_config rt a new_self) = Inr (config', params)"
      by simp
    then have "parse_model_config rt (model_config a) = Inr config'"
      by (simp add: initialize_config_def Let_def split: sum.splits option.splits if_splits)
    with cfg have same: "config' = config" by simp
    from initialize_config_unbatched [OF r] off same Pair
    have "self_support_batching self1 = Some False \<and> self_batcher self1 = None \<and>
          self_unbatcher self1 = None"
      by simp
    moreover from Pair Inr cp init have "self0 = fst (load_model h rt a config' params self1)"
      by (simp add: initialize_def)
    ultimately show ?thesis
      using load_model_keeps [of h rt a config' params self1] by simp
  qed
qed

lemma get_model_path_example:
  "default_model_filename config' = ''net.pt''
     \<Longrightarrow> get_model_path example_host config' = Inr ''/models/net/1/net.pt''"
  by (simp add: get_model_path_def model_filenames_def example_host_def os_path_join_def)

lemma initialize_unbatched_example:
  "initialize example_host example_runtime (example_args ''unbatched'') new_self =
     (unbatched_self, None)"
  by (simp add: initialize_def initialize_config_def load_model_def load_torchscript_def
      get_model_path_example is_py_class_model_def
      example_runtime_def example_args_def example_config_def new_self_def unbatched_self_def
      set_torch_parallelism_def get_torch_compile_params_def get_device_def get_device_name_def
      parse_io_config_def attr_def torch_object_to_device_def)

lemma initialize_batched_example:
  "initialize example_host example_runtime (example_args ''batched'') new_self =
     (batched_self, None)"
  by (simp add: initialize_def initialize_config_def load_model_def load_torchscript_def
      get_model_path_example is_py_class_model_def torch_compile_def
      example_runtime_def example_args_def example_config_def new_self_def unbatched_self_def
      batched_self_def
      set_torch_parallelism_def get_torch_compile_params_def get_device_def get_device_name_def
      parse_io_config_def attr_def torch_object_to_device_def)

lemma execute_unbatched_three:
  "execute example_runtime unbatched_self
     [[(''x'', Tensor [1] [10] (TorchDevice ''cpu''))],
      [(''x'', Tensor [4] [20, 21, 22, 23] (TorchDevice ''cpu''))],
      [(''x'', Tensor [2] [30, 31] (TorchDevice ''cpu''))]] =
   Inr [InferenceResponse [(''y'', Tensor [1] [10] (TorchDevice ''cpu''))],
        InferenceResponse [(''y'', Tensor [4] [20, 21, 22, 23] (TorchDevice ''cpu''))],
        InferenceResponse [(''y'', Tensor [2] [30, 31] (TorchDevice ''cpu''))]]"
  by (simp add: execute_def unbatched_self_def example_runtime_def
      request_tensors_def input_tensor_def get_input_tensor_by_name_def attr_def
      torch_object_to_device_def tensor_to_def invoke_model_def make_response_def)

text \<open>
  Claim C4. After \<^verbatim>\<open>initialize\<close> with a maximum batch size of at most 0, the object
  has no batcher and no unbatcher, and \<^verbatim>\<open>execute\<close> returns the same whatever is put
  in their place: it calls neither. When it returns responses, there is one for each
  request, and response \<open>j\<close> is the response that \<^verbatim>\<open>execute\<close> gives to request \<open>j\<close>
  alone. So two runs that differ in request \<open>i\<close> only give the same response to every
  other request \<open>j\<close>.
\<close>

theorem unbatched_execute:
  assumes init: "initialize h rt a new_self = (self0, None)"
    and cfg: "parse_model_config rt (model_config a) = Inr config"
    and off: "max_batch_size config \<le> 0"
  shows "self_batcher self0 = None \<and> self_unbatcher self0 = None \<and>
     execute rt (self0\<lparr>self_batcher := b, self_unbatcher := u\<rparr>) requests =
       execute rt self0 requests \<and>
     (execute rt self0 requests = Inr responses \<longrightarrow>
        length responses = length requests \<and>
        (\<forall>j<length requests. execute rt self0 [requests ! j] = Inr [responses ! j])) \<and>
     (execute rt self0 requests = Inr responses \<and>
      execute rt self0 (requests[i := r]) = Inr responses' \<and>
      j < length requests \<and> j \<noteq> i \<longrightarrow> responses' ! j = responses ! j)"
proof -
  from initialize_unbatched [OF init cfg off]
  have sb: "self_support_batching self0 = Some False" and b: "self_batcher self0 = None"
    and u: "self_unbatcher self0 = None"
    by simp_all
  have it: "input_tensor (self0\<lparr>self_batcher := b, self_unbatcher := u\<rparr>) = input_tensor self0"
    by (rule ext)+ (simp add: input_tensor_def cong: option.case_cong)
  have "request_tensors (self0\<lparr>self_batcher := b, self_unbatcher := u\<rparr>) =
        request_tensors self0"
    by (rule ext) (simp add: request_tensors_def it cong: sum.case_cong)
  moreover have "invoke_model rt (self0\<lparr>self_batcher := b, self_unbatcher := u\<rparr>) =
        invoke_model rt self0"
    by (rule ext) (simp add: invoke_model_def cong: sum.case_cong)
  moreover have "make_response (self0\<lparr>self_batcher := b, self_unbatcher := u\<rparr>) =
        make_response self0"
    by (rule ext) (simp add: make_response_def cong: sum.case_cong)
  ultimately have indep: "execute rt (self0\<lparr>self_batcher := b, self_unbatcher := u\<rparr>) requests =
       execute rt self0 requests"
    using sb by (simp add: execute_unbatched cong: sum.case_cong)
  have alone: "execute rt self0 requests = Inr responses \<longrightarrow>
        length responses = length requests \<and>
        (\<forall>j<length requests. execute rt self0 [requests ! j] = Inr [responses ! j])"
    using execute_unbatched_alone [OF sb] by blast
  have nonint: "execute rt self0 requests = Inr responses \<and>
      execute rt self0 (requests[i := r]) = Inr responses' \<and>
      j < length requests \<and> j \<noteq> i \<longrightarrow> responses' ! j = responses ! j"
  proof (intro impI, elim conjE)
    assume run: "execute rt self0 requests = Inr responses"
      and run': "execute rt self0 (requests[i := r]) = Inr responses'"
      and j: "j < length requests" and ji: "j \<noteq> i"
    from execute_unbatched_alone(2) [OF sb run j]
    have "execute rt self0 [requests ! j] = Inr [responses ! j]" .
    moreover from execute_unbatched_alone(2) [OF sb run', of j] j ji
    have "execute rt self0 [requests ! j] = Inr [responses' ! j]" by simp
    ultimately show "responses' ! j = responses ! j" by simp
  qed
  from b u indep alone nonint show ?thesis by blast
qed

theorem unbatched_execute_witness:
  "initialize example_host example_runtime (example_args ''unbatched'') new_self =
     (unbatched_self, None) \<and>
   parse_model_config example_runtime (model_config (example_args ''unbatched'')) =
     Inr example_config \<and>
   max_batch_size example_config \<le> 0 \<and>
   self_batcher unbatched_self = None \<and> self_unbatcher unbatched_self = None \<and>
   execute example_runtime
     (unbatched_self\<lparr>self_batcher := Some (\<lambda>rs. Inl RuntimeError),
                      self_unbatcher := Some (\<lambda>ts secs. Inl RuntimeError)\<rparr>)
     [[(''x'', Tensor [1] [10] (TorchDevice ''cpu''))],
      [(''x'', Tensor [4] [20, 21, 22, 23] (TorchDevice ''cpu''))],
      [(''x'', Tensor [2] [30, 31] (TorchDevice ''cpu''))]] =
   Inr [InferenceResponse [(''y'', Tensor [1] [10] (TorchDevice ''cpu''))],
        InferenceResponse [(''y'', Tensor [4] [20, 21, 22, 23] (TorchDevice ''cpu''))],
        InferenceResponse [(''y'', Tensor [2] [30, 31] (TorchDevice ''cpu''))]] \<and>
   execute example_runtime unbatched_self
     [[(''x'', Tensor [4] [20, 21, 22, 23] (TorchDevice ''cpu''))]] =
   Inr [InferenceResponse [(''y'', Tensor [4] [20, 21, 22, 23] (TorchDevice ''cpu''))]] \<and>
   execute example_runtime unbatched_self
     [[(''x'', Tensor [1] [10] (TorchDevice ''cpu''))],
      [(''x'', Tensor [3] [7, 8, 9] (TorchDevice ''cpu''))],
      [(''x'', Tensor [2] [30, 31] (TorchDevice ''cpu''))]] =
   Inr [InferenceResponse [(''y'', Tensor [1] [10] (TorchDevice ''cpu''))],
        InferenceResponse [(''y'', Tensor [3] [7, 8, 9] (TorchDevice ''cpu''))],
        InferenceResponse [(''y'', Tensor [2] [30, 31] (TorchDevice ''cpu''))]] \<and>
   [InferenceResponse [(''y'', Tensor [1] [10 :: int] (TorchDevice ''cpu''))],
    InferenceResponse [(''y'', Tensor [3] [7, 8, 9] (TorchDevice ''cpu''))],
    InferenceResponse [(''y'', Tensor [2] [30, 31] (TorchDevice ''cpu''))]] ! 2 =
   [InferenceResponse [(''y'', Tensor [1] [10] (TorchDevice ''cpu''))],
    InferenceResponse [(''y'', Tensor [4] [20, 21, 22, 23] (TorchDevice ''cpu''))],
    InferenceResponse [(''y'', Tensor [2] [30, 31] (TorchDevice ''cpu''))]] ! 2"
proof -
  let ?requests = "[[(''x'', Tensor [1] [10 :: int] (TorchDevice ''cpu''))],
                    [(''x'', Tensor [4] [20, 21, 22, 23] (TorchDevice ''cpu''))],
                    [(''x'', Tensor [2] [30, 31] (TorchDevice ''cpu''))]]"
  let ?responses =
    "[InferenceResponse [(''y'', Tensor [1] [10 :: int] (TorchDevice ''cpu''))],
      InferenceResponse [(''y'', Tensor [4] [20, 21, 22, 23] (TorchDevice ''cpu''))],
      InferenceResponse [(''y'', Tensor [2] [30, 31] (TorchDevice ''cpu''))]]"
  let ?responses' =
    "[InferenceResponse [(''y'', Tensor [1] [10 :: int] (TorchDevice ''cpu''))],
      InferenceResponse [(''y'', Tensor [3] [7, 8, 9] (TorchDevice ''cpu''))],
      InferenceResponse [(''y'', Tensor [2] [30, 31] (TorchDevice ''cpu''))]]"
  have parsed: "parse_model_config example_runtime (model_config (example_args ''unbatched'')) =
      Inr example_config"
    by (simp add: example_runtime_def example_args_def)
  have off: "max_batch_size example_config \<le> 0"
    by (simp add: example_config_def)
  have run: "execute example_runtime unbatched_self ?requests = Inr ?responses"
    by (rule execute_unbatched_three)
  note inst = unbatched_execute [OF initialize_unbatched_example parsed off,
      where b = "Some (\<lambda>rs. Inl RuntimeError)" and u = "Some (\<lambda>ts secs. Inl RuntimeError)"
        and requests = ?requests and responses = ?responses and i = 1
        and r = "[(''x'', Tensor [3] [7, 8, 9] (TorchDevice ''cpu''))]"
        and responses' = ?responses' and j = 2]
  from inst have none: "self_batcher unbatched_self = None" "self_unbatcher unbatched_self = None"
    by blast+
  from inst have same: "execute example_runtime
      (unbatched_self\<lparr>self_batcher := Some (\<lambda>rs. Inl RuntimeError),
                       self_unbatcher := Some (\<lambda>ts secs. Inl RuntimeError)\<rparr>) ?requests =
      execute example_runtime unbatched_self ?requests"
    by blast
  from inst run have each: "\<forall>j<length ?requests.
      execute example_runtime unbatched_self [?requests ! j] = Inr [?responses ! j]"
    by blast
  from each [rule_format, of 1] have alone: "execute example_runtime unbatched_self
      [[(''x'', Tensor [4] [20, 21, 22, 23] (TorchDevice ''cpu''))]] =
      Inr [InferenceResponse [(''y'', Tensor [4] [20, 21, 22, 23] (TorchDevice ''cpu''))]]"
    by simp
  have run': "execute example_runtime unbatched_self
      (?requests[1 := [(''x'', Tensor [3] [7, 8, 9] (TorchDevice ''cpu''))]]) = Inr ?responses'"
    by (simp add: execute_def unbatched_self_def example_runtime_def
        request_tensors_def input_tensor_def get_input_tensor_by_name_def attr_def
        torch_object_to_device_def tensor_to_def invoke_model_def make_response_def)
  from inst run run' have other: "?responses' ! 2 = ?responses ! 2"
    by simp
  from run' have run'': "execute example_runtime unbatched_self
     [[(''x'', Tensor [1] [10] (TorchDevice ''cpu''))],
      [(''x'', Tensor [3] [7, 8, 9] (TorchDevice ''cpu''))],
      [(''x'', Tensor [2] [30, 31] (TorchDevice ''cpu''))]] = Inr ?responses'"
    by simp
  from initialize_unbatched_example parsed off none same run alone run'' other show ?thesis
    by simp
qed

text \<open>
  Claim C3. \<^verbatim>\<open>execute\<close> should return one response for each request, in the order
  of the requests, with batching as without. On the object that \<^verbatim>\<open>initialize\<close> leaves
  for a maximum batch size of 8, two requests of one row each make the batcher return
  the first request's tensor with the sections \<open>[1, 1]\<close>, the model returns that
  tensor, and the unbatcher's split raises: no response is returned.
\<close>

theorem batched_execute_raises:
  "initialize example_host example_runtime (example_args ''batched'') new_self =
     (batched_self, None) \<and>
   execute example_runtime batched_self
     [[(''x'', Tensor [1] [10] (TorchDevice ''cpu''))],
      [(''x'', Tensor [1] [20] (TorchDevice ''cpu''))]] = Inl RuntimeError"
  using initialize_batched_example
  by (simp add: execute_def batched_self_def unbatched_self_def example_runtime_def
      request_tensors_def input_tensor_def get_input_tensor_by_name_def attr_def
      torch_object_to_device_def tensor_to_def invoke_model_def
      batch_torch_tensors_def unbatch_torch_tensors_def torch_cat_def torch_split_def size0_def)

text \<open>
  Without batching the responses are as many as the requests and in their order, and
  with batching a single request is answered.
\<close>

lemma execute_unbatched_length_order:
  assumes "self_support_batching self0 = Some False"
    and "execute rt self0 requests = Inr responses"
  shows "length responses = length requests \<and>
         list_all (\<lambda>j. execute rt self0 [requests ! j] = Inr [responses ! j])
           [0..<length requests]"
  using execute_unbatched_alone [OF assms] by (simp add: list_all_iff)

lemma execute_batched_one:
  "execute example_runtime batched_self [[(''x'', Tensor [1] [10] (TorchDevice ''cpu''))]] =
     Inr [InferenceResponse [(''y'', Tensor [1] [10] (TorchDevice ''cpu''))]]"
  by (simp add: execute_def batched_self_def unbatched_self_def example_runtime_def
      request_tensors_def input_tensor_def get_input_tensor_by_name_def attr_def
      torch_object_to_device_def tensor_to_def invoke_model_def make_response_def
      batch_torch_tensors_def unbatch_torch_tensors_def torch_split_def size0_def)

end
